theory Spec2Isabelle
  imports Main "HOL-Library.Sublist" "HOL-Library.Char_ord" "HOL-Library.List_Lexorder"
    "HOL-Library.Multiset"
begin

section \<open>Strings as Python uses them in \<open>setup_project.py\<close>\<close>

text \<open>
  Strings are byte strings (\<^typ>\<open>string\<close>); the order on them is the lexicographic order
  of \<open>List_Lexorder\<close> over the byte order of \<open>Char_ord\<close>, which is the order Python's
  \<open>sorted\<close> uses on \<open>str\<close> (code point order, and byte order on UTF-8 agrees with it).
\<close>

text \<open>\<open>str.replace(old, new)\<close>: every non-overlapping occurrence, leftmost first.\<close>

fun replace :: "string \<Rightarrow> string \<Rightarrow> string \<Rightarrow> string" where
  "replace old new [] = (if old = [] then new else [])"
| "replace old new (c # cs) =
     (if old = [] then new @ c # replace old new cs
      else if prefix old (c # cs) then new @ replace old new (drop (length old) (c # cs))
      else c # replace old new cs)"

text \<open>
  \<open>str.strip()\<close> removes leading and trailing white space. The generator applies it only
  to titles derived from the ASCII names of \<open>CHAPTER_FILES\<close>, so the ASCII white space
  characters of \<open>str.isspace\<close> are the ones that matter.
\<close>

definition is_space :: "char \<Rightarrow> bool" where
  "is_space c = (c \<in> set [CHR 0x09, CHR 0x0A, CHR 0x0B, CHR 0x0C, CHR 0x0D,
                           CHR 0x1C, CHR 0x1D, CHR 0x1E, CHR 0x1F, CHR '' ''])"

definition strip :: "string \<Rightarrow> string" where
  "strip s = rev (dropWhile is_space (rev (dropWhile is_space s)))"

text \<open>\<open>"\n".join(toc)\<close>\<close>

fun join_lines :: "string list \<Rightarrow> string" where
  "join_lines [] = []"
| "join_lines [l] = l"
| "join_lines (l # ls) = l @ CHR 0x0A # join_lines ls"

section \<open>The chapter directory\<close>

text \<open>
  A snapshot of \<open>rules_dir\<close>: the entries of the directory in the order the operating
  system enumerates them, each with the kind \<open>Path.is_file\<close> sees. Names are matched
  exactly (a case-sensitive POSIX file system).
\<close>

datatype kind = RegularFile | Directory

type_synonym listing = "(string \<times> kind) list"

text \<open>\<open>(rules_dir / filename).is_file()\<close>\<close>

definition is_file :: "listing \<Rightarrow> string \<Rightarrow> bool" where
  "is_file rules_dir filename = ((filename, RegularFile) \<in> set rules_dir)"

text \<open>\<open>[f.name for f in rules_dir.glob('*.md')]\<close>: every entry whose name ends in \<open>.md\<close>,
  whatever its kind.\<close>

definition glob_md :: "listing \<Rightarrow> string list" where
  "glob_md rules_dir = map fst (filter (\<lambda>e. suffix ''.md'' (fst e)) rules_dir)"


section \<open>\<open>generate_toc_content\<close>\<close>

definition CHAPTER_FILES :: "string list" where
  "CHAPTER_FILES =
    [''00-Introduction.md'',
     ''1-Using-LLMs-Effectively-Safely-The-Core-Interaction-Loop.md'',
     ''2-Security-Non-Negotiable-Foundations.md'',
     ''3-Code-Quality-Maintainability.md'',
     ''4-Testing-Validation.md'',
     ''5-Performance-Efficiency.md'',
     ''6-Architecture-System-Design.md'',
     ''7-Frontend-UIUX-Accessibility.md'',
     ''8-DevOps-Infrastructure.md'',
     ''9-Specific-Technologies-Advanced-Topics.md'']"

text \<open>The title of an entry of the \<open>Chapters\<close> section: the chain of replacements of the
  source, in its order, then \<open>strip\<close>.\<close>

definition chapter_title :: "string \<Rightarrow> string" where
  "chapter_title filename =
     strip (replace ''9'' ''9.'' (replace ''8'' ''8.'' (replace ''7'' ''7.''
       (replace ''6'' ''6.'' (replace ''5'' ''5.'' (replace ''4'' ''4.''
       (replace ''3'' ''3.'' (replace ''2'' ''2.'' (replace ''1'' ''1.''
       (replace ''0'' '''' (replace ''00'' ''''
       (replace ''-'' '' '' (replace ''.md'' '''' filename)))))))))))))"

text \<open>The title of an entry of the \<open>Other Files\<close> section.\<close>

definition other_title :: "string \<Rightarrow> string" where
  "other_title filename = replace ''-'' '' '' (replace ''.md'' '''' filename)"

text \<open>\<open>f"*   [{title}]({relative_link})"\<close> with \<open>relative_link = f"../rules/{filename}"\<close>\<close>

definition toc_entry :: "string \<Rightarrow> string \<Rightarrow> string" where
  "toc_entry title filename = ''*   ['' @ title @ ''](''  @ (''../rules/'' @ filename) @ '')''"

text \<open>
  The loop over \<open>CHAPTER_FILES\<close>. Its state is \<open>toc\<close>, \<open>found_files\<close> and the warnings
  printed to \<open>stderr\<close>; a warning is recorded as the name of the missing chapter file.
\<close>

fun chapter_loop ::
  "listing \<Rightarrow> string list \<Rightarrow> string list \<times> string list \<times> string list
    \<Rightarrow> string list \<times> string list \<times> string list" where
  "chapter_loop rules_dir [] st = st"
| "chapter_loop rules_dir (filename # rest) (toc, found_files, warnings) =
     (if is_file rules_dir filename
      then chapter_loop rules_dir rest
             (toc @ [toc_entry (chapter_title filename) filename], found_files @ [filename],
              warnings)
      else chapter_loop rules_dir rest (toc, found_files, warnings @ [filename]))"

text \<open>The loop over \<open>other_files\<close>.\<close>

fun other_loop :: "string list \<Rightarrow> string list \<Rightarrow> string list" where
  "other_loop [] toc = toc"
| "other_loop (filename # rest) toc =
     other_loop rest (toc @ [toc_entry (other_title filename) filename])"

text \<open>The body of \<open>generate_toc_content\<close> up to the final join: the list \<open>toc\<close> and the
  warnings.\<close>

definition generate_toc :: "listing \<Rightarrow> string list \<times> string list" where
  "generate_toc rules_dir =
     (let toc = [''# LLM Coding Guide - Master Rules (v1.0.7+)'', '''',
                 ''This document serves as the entry point and Table of Contents for the Master List of Rules (MLR) for LLM-Assisted Coding.'',
                 ''The rules are broken down into chapters, located in the `../rules/` directory.'',
                 '''',
                 ''## Chapters'',
                 ''''];
          (toc, found_files, warnings) = chapter_loop rules_dir CHAPTER_FILES (toc, [], []);
          other_files = sort (filter (\<lambda>name. name \<notin> set found_files) (glob_md rules_dir));
          toc = (if other_files \<noteq> []
                 then other_loop other_files (toc @ ['''', ''### Other Files''])
                 else toc)
      in (toc @ [''''], warnings))"

definition toc_lines :: "listing \<Rightarrow> string list" where
  "toc_lines rules_dir = fst (generate_toc rules_dir)"

definition toc_warnings :: "listing \<Rightarrow> string list" where
  "toc_warnings rules_dir = snd (generate_toc rules_dir)"

definition generate_toc_content :: "listing \<Rightarrow> string" where
  "generate_toc_content rules_dir = join_lines (toc_lines rules_dir)"

section \<open>Reading the sections of the document\<close>




definition is_entry :: "string \<Rightarrow> bool" where
  "is_entry l = prefix ''*   ['' l"

definition entries :: "string list \<Rightarrow> string list" where
  "entries ls = filter is_entry ls"




section \<open>The title as the specification words it\<close>






section \<open>\<open>main\<close>: the orchestration sequence\<close>

subsection \<open>The working tree\<close>

text \<open>
  A path is the list of its components below \<open>project_path\<close>. The working tree maps
  paths to nodes; it is an association list, so that the children of a directory can be
  enumerated. The contents of the template constants are opaque payloads: each is a
  constant of its own, \<open>SCRIPT_SOURCE\<close> is the text of the running script, and
  \<open>Text\<close> carries any other text.
\<close>

type_synonym path = "string list"

datatype payload =
    GITIGNORE_CONTENT | GITATTRIBUTES_CONTENT | VSCODE_SETTINGS_CONTENT
  | MARKDOWNLINT_CONFIG_CONTENT | README_CONTENT_TEMPLATE | SETUP_GUIDE_CONTENT
  | GITHUB_WORKFLOW_CONTENT | SCRIPT_SOURCE | Text string

datatype node = DirNode | FileNode payload

type_synonym filesystem = "(path \<times> node) list"

fun fs_put :: "path \<Rightarrow> node \<Rightarrow> filesystem \<Rightarrow> filesystem" where
  "fs_put p n [] = [(p, n)]"
| "fs_put p n ((q, m) # rest) = (if q = p then (p, n) # rest else (q, m) # fs_put p n rest)"

text \<open>\<open>path.is_dir()\<close>\<close>

definition is_dir :: "filesystem \<Rightarrow> path \<Rightarrow> bool" where
  "is_dir fs p = (map_of fs p = Some DirNode)"

fun node_kind :: "node \<Rightarrow> kind" where
  "node_kind DirNode = Directory"
| "node_kind (FileNode c) = RegularFile"

text \<open>The snapshot of a directory that \<open>generate_toc_content\<close> reads: its children.\<close>

definition listdir :: "filesystem \<Rightarrow> path \<Rightarrow> listing" where
  "listdir fs dir =
     map (\<lambda>e. (last (fst e), node_kind (snd e)))
       (filter (\<lambda>e. fst e \<noteq> [] \<and> butlast (fst e) = dir) fs)"

text \<open>\<open>mkdir(parents=True, exist_ok=True)\<close> on the first \<open>k\<close> components of a path: every
  missing ancestor becomes a directory, an existing node is left alone.\<close>

fun make_dirs :: "path \<Rightarrow> nat \<Rightarrow> filesystem \<Rightarrow> filesystem" where
  "make_dirs p 0 fs = fs"
| "make_dirs p (Suc k) fs =
     (let fs' = make_dirs p k fs; q = take (Suc k) p
      in if map_of fs' q = None then fs_put q DirNode fs' else fs')"

subsection \<open>The environment of one run\<close>

text \<open>
  What the run cannot decide by itself is an answer of the environment: whether a
  prerequisite command is found, what \<open>subprocess.run\<close> does with a command (it returns
  with a return code and its two output streams, the program is not found, or something
  else goes wrong), and whether the file system refuses a \<open>mkdir\<close>, a write or the copy of
  the script.
\<close>

datatype proc = Returned int string string | NotFound | Crashed string

datatype exc = OSError | CalledProcessError | FileNotFoundError | OtherError

record env =
  sys_executable :: string
  script_name :: string
  prereq_ok :: "string list \<Rightarrow> bool"
  subprocess_run :: "string list \<Rightarrow> proc"
  mkdir_error :: "path \<Rightarrow> bool"
  write_error :: "path \<Rightarrow> bool"
  copy_error :: bool

text \<open>
  A run ends by returning from \<open>main\<close>, by \<open>sys.exit(n)\<close>, or with an exception nobody
  catches. The interpreter turns the first into exit status 0 and the last into exit
  status 1.
\<close>

datatype outcome = Completed | Exited nat | Uncaught exc

fun exit_code :: "outcome \<Rightarrow> nat" where
  "exit_code Completed = 0"
| "exit_code (Exited n) = n"
| "exit_code (Uncaught x) = 1"

text \<open>The steps a run executes are recorded in the order they happen.\<close>

datatype action =
    CheckPrereq "string list"
  | Mkdir path
  | MkdirFailed path
  | CreateFile path payload
  | CreateFileFailed path
  | CopyScript path
  | RunCommand "string list"

record state =
  tree :: filesystem
  trace :: "action list"

definition log :: "action \<Rightarrow> state \<Rightarrow> state" where
  "log a st = st\<lparr>trace := trace st @ [a]\<rparr>"

subsection \<open>The helper functions\<close>

text \<open>
  \<open>run_command(command, cwd, check)\<close>: with \<open>check\<close> every failure is raised again after
  it is printed (\<open>subprocess.run(check=True)\<close> raises \<open>CalledProcessError\<close> on a non-zero
  return code); without it the call returns \<open>(returncode == 0, stdout, stderr)\<close>.
\<close>

definition run_command ::
  "env \<Rightarrow> string list \<Rightarrow> bool \<Rightarrow> state \<Rightarrow> (exc + bool \<times> string \<times> string) \<times> state" where
  "run_command e command check st =
     (case subprocess_run e command of
        Returned returncode out err \<Rightarrow>
          if returncode \<noteq> 0 \<and> check
          then (Inl CalledProcessError, log (RunCommand command) st)
          else (Inr (returncode = 0, out, err), log (RunCommand command) st)
      | NotFound \<Rightarrow>
          if check then (Inl FileNotFoundError, log (RunCommand command) st)
          else (Inr (False, [], concat (take 1 command) @ '' not found''),
                log (RunCommand command) st)
      | Crashed msg \<Rightarrow>
          if check then (Inl OtherError, log (RunCommand command) st)
          else (Inr (False, [], msg), log (RunCommand command) st))"

definition check_prereq :: "env \<Rightarrow> string list \<Rightarrow> state \<Rightarrow> bool \<times> state" where
  "check_prereq e command st = (prereq_ok e command, log (CheckPrereq command) st)"

text \<open>
  \<open>create_file(path, content)\<close>: the parents are made, the file is written over whatever
  was there; an \<open>OSError\<close> is printed and raised again. The write is refused when the
  environment says so or a directory sits at the path.
\<close>

definition create_file :: "env \<Rightarrow> path \<Rightarrow> payload \<Rightarrow> state \<Rightarrow> exc option \<times> state" where
  "create_file e p content st =
     (if write_error e p \<or> is_dir (tree st) p
      then (Some OSError, log (CreateFileFailed p) st)
      else (None, log (CreateFile p content)
              (st\<lparr>tree := fs_put p (FileNode content)
                             (make_dirs p (length p - 1) (tree st))\<rparr>)))"

text \<open>\<open>path.mkdir(exist_ok=True)\<close>, with \<open>parents=True\<close> for the one nested path of step 3; the
  parent of the other three is the working directory itself. It raises when a file sits
  at the path.\<close>

definition mkdir :: "env \<Rightarrow> path \<Rightarrow> state \<Rightarrow> exc option \<times> state" where
  "mkdir e p st =
     (if mkdir_error e p \<or> (map_of (tree st) p \<noteq> None \<and> map_of (tree st) p \<noteq> Some DirNode)
      then (Some OSError, log (MkdirFailed p) st)
      else (None, log (Mkdir p) (st\<lparr>tree := make_dirs p (length p) (tree st)\<rparr>)))"

subsection \<open>The steps of \<open>main\<close>\<close>

text \<open>Statements in sequence: an exception of one ends the sequence.\<close>

fun run_all :: "(state \<Rightarrow> exc option \<times> state) list \<Rightarrow> state \<Rightarrow> exc option \<times> state" where
  "run_all [] st = (None, st)"
| "run_all (stmt # rest) st =
     (case stmt st of (None, st') \<Rightarrow> run_all rest st' | (Some x, st') \<Rightarrow> (Some x, st'))"

text \<open>Step 3: the directories and the seven template files, none of them inside a
  \<open>try\<close>.\<close>

definition create_structure :: "env \<Rightarrow> state \<Rightarrow> exc option \<times> state" where
  "create_structure e =
     run_all
       [mkdir e [''docs''],
        mkdir e [''scripts''],
        mkdir e [''.vscode''],
        mkdir e [''.github'', ''workflows''],
        create_file e [''.gitignore''] GITIGNORE_CONTENT,
        create_file e [''.gitattributes''] GITATTRIBUTES_CONTENT,
        create_file e [''.vscode'', ''settings.json''] VSCODE_SETTINGS_CONTENT,
        create_file e [''.markdownlint.jsonc''] MARKDOWNLINT_CONFIG_CONTENT,
        create_file e [''README.md''] README_CONTENT_TEMPLATE,
        create_file e [''docs'', ''SETUP_GUIDE.md''] SETUP_GUIDE_CONTENT,
        create_file e [''.github'', ''workflows'', ''markdown-lint.yml'']
          GITHUB_WORKFLOW_CONTENT]"

text \<open>
  The copy of the script into \<open>scripts/\<close>, inside \<open>try ... except Exception\<close>: it is copied
  when the target does not exist or its text differs; reading a directory as text
  raises, and every exception ends in a warning only.
\<close>

definition copy_script :: "env \<Rightarrow> state \<Rightarrow> state" where
  "copy_script e st =
     (if map_of (tree st) [''scripts'', script_name e] = Some DirNode then st
      else if map_of (tree st) [''scripts'', script_name e] = None
              \<or> map_of (tree st) [''scripts'', script_name e] \<noteq> Some (FileNode SCRIPT_SOURCE)
      then (if copy_error e then st
            else log (CopyScript [''scripts'', script_name e])
                   (st\<lparr>tree := fs_put [''scripts'', script_name e] (FileNode SCRIPT_SOURCE)
                                  (tree st)\<rparr>))
      else st)"

text \<open>Step 4: the table of contents, inside \<open>try ... except Exception\<close>: an exception of
  \<open>create_file\<close> is caught here and ends in two printed lines.\<close>

definition write_toc :: "env \<Rightarrow> state \<Rightarrow> state" where
  "write_toc e st =
     (case create_file e [''docs'', ''LLM_CODING_GUIDE.md'']
             (Text (generate_toc_content (listdir (tree st) [''rules'']))) st of
        (None, st') \<Rightarrow> st'
      | (Some x, st') \<Rightarrow> st')"

text \<open>
  Step 5: the virtual environment. \<open>run_command\<close> is called with its default
  \<open>check=True\<close>. A successful \<open>python -m venv .venv\<close> leaves the directory \<open>.venv\<close>.
\<close>

definition setup_venv :: "env \<Rightarrow> state \<Rightarrow> exc option \<times> state" where
  "setup_venv e st =
     (if \<not> is_dir (tree st) [''.venv'']
      then (case run_command e [sys_executable e, ''-m'', ''venv'', ''.venv''] True st of
              (Inl x, st') \<Rightarrow> (Some x, st')
            | (Inr (success, out, err), st') \<Rightarrow>
                (None, if success
                       then st'\<lparr>tree := fs_put [''.venv''] DirNode (tree st')\<rparr>
                       else st'))
      else (None, st))"

text \<open>Step 6: the linter, with \<open>check=False\<close>.\<close>

definition install_tools :: "env \<Rightarrow> bool \<Rightarrow> state \<Rightarrow> exc option \<times> state" where
  "install_tools e npm_ok st =
     (if npm_ok
      then (case run_command e [''npm'', ''install'', ''-g'', ''markdownlint-cli''] False st of
              (Inl x, st') \<Rightarrow> (Some x, st')
            | (Inr (success, out, err), st') \<Rightarrow> (None, st'))
      else (None, st))"

text \<open>Step 7: the branch. The listing runs with \<open>check=False\<close>, the creation with the
  default \<open>check=True\<close>.\<close>

definition ensure_develop :: "env \<Rightarrow> state \<Rightarrow> exc option \<times> state" where
  "ensure_develop e st =
     (case run_command e [''git'', ''branch'', ''--list'', ''develop''] False st of
        (Inl x, st') \<Rightarrow> (Some x, st')
      | (Inr (success, out, err), st') \<Rightarrow>
          if \<not> sublist ''develop'' (strip out)
          then (case run_command e [''git'', ''branch'', ''develop''] True st' of
                  (Inl x, st'') \<Rightarrow> (Some x, st'')
                | (Inr r, st'') \<Rightarrow> (None, st''))
          else (None, st'))"

text \<open>\<open>main\<close>, run in a working tree.\<close>

definition main :: "env \<Rightarrow> filesystem \<Rightarrow> outcome \<times> state" where
  "main e tree0 =
     (let st = \<lparr>tree = tree0, trace = []\<rparr>;
          (python_ok, st) = check_prereq e [sys_executable e, ''--version''] st;
          (git_ok, st) = check_prereq e [''git'', ''--version''] st;
          (npm_ok, st) = check_prereq e [''npm'', ''--version''] st
      in if \<not> python_ok then (Exited 1, st)
         else if \<not> git_ok then (Exited 1, st)
         else if \<not> is_dir (tree st) [''.git''] then (Exited 1, st)
         else if \<not> is_dir (tree st) [''rules''] then (Exited 1, st)
         else (case create_structure e st of
                 (Some x, st) \<Rightarrow> (Uncaught x, st)
               | (None, st) \<Rightarrow>
                   (case setup_venv e (write_toc e (copy_script e st)) of
                      (Some x, st) \<Rightarrow> (Uncaught x, st)
                    | (None, st) \<Rightarrow>
                        (case install_tools e npm_ok st of
                           (Some x, st) \<Rightarrow> (Uncaught x, st)
                         | (None, st) \<Rightarrow>
                             (case ensure_develop e st of
                                (Some x, st) \<Rightarrow> (Uncaught x, st)
                              | (None, st) \<Rightarrow> (Completed, st))))))"

subsection \<open>Concrete runs\<close>

text \<open>An environment where every tool is there and nothing fails, and a repository with
  one chapter.\<close>

definition env_ok :: env where
  "env_ok = \<lparr>sys_executable = ''python3'', script_name = ''setup_project.py'',
     prereq_ok = (\<lambda>c. True), subprocess_run = (\<lambda>c. Returned 0 [] []),
     mkdir_error = (\<lambda>p. False), write_error = (\<lambda>p. False), copy_error = False\<rparr>"

definition repo :: filesystem where
  "repo = [([''.git''], DirNode), ([''rules''], DirNode),
           ([''rules'', ''00-Introduction.md''], FileNode (Text ''intro''))]"

section \<open>The shape of the generated list of lines\<close>

definition header_lines :: "string list" where
  "header_lines =
     [''# LLM Coding Guide - Master Rules (v1.0.7+)'', '''',
      ''This document serves as the entry point and Table of Contents for the Master List of Rules (MLR) for LLM-Assisted Coding.'',
      ''The rules are broken down into chapters, located in the `../rules/` directory.'',
      '''',
      ''## Chapters'',
      '''']"

definition found_of :: "listing \<Rightarrow> string list" where
  "found_of rules_dir = filter (is_file rules_dir) CHAPTER_FILES"

definition others_of :: "listing \<Rightarrow> string list" where
  "others_of rules_dir =
     sort (filter (\<lambda>name. name \<notin> set (found_of rules_dir)) (glob_md rules_dir))"

definition chapter_entry :: "string \<Rightarrow> string" where
  "chapter_entry filename = toc_entry (chapter_title filename) filename"

definition other_entry :: "string \<Rightarrow> string" where
  "other_entry filename = toc_entry (other_title filename) filename"

section \<open>Notions used to state and prove the properties of a run\<close>

text \<open>Environments used as concrete inputs: a command fails, or a write is refused.\<close>

definition env_venv_fails :: env where
  "env_venv_fails = env_ok\<lparr>subprocess_run :=
     (\<lambda>c. if c = [''python3'', ''-m'', ''venv'', ''.venv''] then Returned 1 [] ''Error''
          else Returned 0 [] [])\<rparr>"

definition env_npm_fails :: env where
  "env_npm_fails = env_ok\<lparr>subprocess_run :=
     (\<lambda>c. if c = [''npm'', ''install'', ''-g'', ''markdownlint-cli'']
          then Returned 1 [] ''npm ERR! code EACCES''
          else Returned 0 [] [])\<rparr>"

definition env_toc_refused :: env where
  "env_toc_refused = env_ok\<lparr>write_error := (\<lambda>p. p = [''docs'', ''LLM_CODING_GUIDE.md''])\<rparr>"

definition env_readme_refused :: env where
  "env_readme_refused = env_ok\<lparr>write_error := (\<lambda>p. p = [''README.md''])\<rparr>"


text \<open>The prerequisite checks every run starts with, the path of the generated file, and
  the two commands of steps 5 and 6.\<close>

definition checks :: "env \<Rightarrow> action list" where
  "checks e = [CheckPrereq [sys_executable e, ''--version''], CheckPrereq [''git'', ''--version''],
               CheckPrereq [''npm'', ''--version'']]"

definition toc_path :: path where
  "toc_path = [''docs'', ''LLM_CODING_GUIDE.md'']"

definition venv_cmd :: "env \<Rightarrow> string list" where
  "venv_cmd e = [sys_executable e, ''-m'', ''venv'', ''.venv'']"

definition npm_cmd :: "string list" where
  "npm_cmd = [''npm'', ''install'', ''-g'', ''markdownlint-cli'']"

text \<open>The template files of step 3 and, with the generated table of contents, all the files
  a run writes: each path with the payload written to it.\<close>

definition templates :: "(path \<times> payload) list" where
  "templates =
     [([''.gitignore''], GITIGNORE_CONTENT),
      ([''.gitattributes''], GITATTRIBUTES_CONTENT),
      ([''.vscode'', ''settings.json''], VSCODE_SETTINGS_CONTENT),
      ([''.markdownlint.jsonc''], MARKDOWNLINT_CONFIG_CONTENT),
      ([''README.md''], README_CONTENT_TEMPLATE),
      ([''docs'', ''SETUP_GUIDE.md''], SETUP_GUIDE_CONTENT),
      ([''.github'', ''workflows'', ''markdown-lint.yml''], GITHUB_WORKFLOW_CONTENT)]"

definition outputs :: "listing \<Rightarrow> (path \<times> payload) list" where
  "outputs L = templates @ [(toc_path, Text (generate_toc_content L))]"

text \<open>What a step leaves alone: the listing of \<open>rules/\<close> and the node at \<open>.venv\<close>.\<close>

definition keeps :: "filesystem \<Rightarrow> filesystem \<Rightarrow> bool" where
  "keeps fs fs' =
     (listdir fs' [''rules''] = listdir fs [''rules'']
      \<and> map_of fs' [''.venv''] = map_of fs [''.venv''])"

text \<open>The action a statement of step 3 records when it succeeds, and when it fails.\<close>

fun step_good :: "action \<Rightarrow> bool" where
  "step_good (Mkdir p) = True"
| "step_good (CreateFile p c) = ((p, c) \<in> set templates)"
| "step_good a = False"

fun step_bad :: "action \<Rightarrow> bool" where
  "step_bad (MkdirFailed p) = True"
| "step_bad (CreateFileFailed p) = (p \<in> set (map fst templates))"
| "step_bad a = False"

text \<open>A statement of step 3: it leaves \<open>rules/\<close> and \<open>.venv\<close> alone and records one action;
  when it raises, it raises \<open>OSError\<close>.\<close>

definition stmt_ok :: "(state \<Rightarrow> exc option \<times> state) \<Rightarrow> bool" where
  "stmt_ok s =
     (\<forall>st. keeps (tree st) (tree (snd (s st))) \<and>
        (\<exists>a. trace (snd (s st)) = trace st @ [a] \<and>
           (case fst (s st) of None \<Rightarrow> step_good a | Some x \<Rightarrow> x = OSError \<and> step_bad a)))"

section \<open>The generated list of lines, in closed form\<close>

lemma chapter_loop_eq:
  "chapter_loop d fs (toc, found, warns) =
     (toc @ map chapter_entry (filter (is_file d) fs),
      found @ filter (is_file d) fs,
      warns @ filter (\<lambda>f. \<not> is_file d f) fs)"
  by (induction fs arbitrary: toc found warns) (simp_all add: chapter_entry_def)

lemma other_loop_eq: "other_loop fs toc = toc @ map other_entry fs"
  by (induction fs arbitrary: toc) (simp_all add: other_entry_def)

lemma generate_toc_eq:
  "generate_toc d =
     (header_lines @ map chapter_entry (found_of d) @
        (if others_of d = [] then []
         else '''' # ''### Other Files'' # map other_entry (others_of d)) @ [''''],
      filter (\<lambda>f. \<not> is_file d f) CHAPTER_FILES)"
  by (simp add: generate_toc_def chapter_loop_eq other_loop_eq Let_def header_lines_def
      found_of_def others_of_def)

lemma toc_lines_eq:
  "toc_lines d =
     header_lines @ map chapter_entry (found_of d) @
       (if others_of d = [] then []
        else '''' # ''### Other Files'' # map other_entry (others_of d)) @ ['''']"
  by (simp add: toc_lines_def generate_toc_eq)



section \<open>Entries, headings and link targets\<close>










section \<open>The two sections of the generated document\<close>











section \<open>The order in which the directory is enumerated\<close>

lemma is_file_mset: "mset d = mset d' \<Longrightarrow> is_file d = is_file d'"
  by (rule ext) (auto simp: is_file_def dest: mset_eq_setD)

lemma others_of_mset:
  assumes "mset d = mset d'"
  shows "others_of d = others_of d'"
proof -
  have f: "found_of d = found_of d'"
    by (simp add: found_of_def is_file_mset[OF assms])
  have "mset (glob_md d) = mset (glob_md d')"
    using assms by (simp add: glob_md_def)
  then have "mset (filter (\<lambda>n. n \<notin> set (found_of d')) (glob_md d))
           = mset (filter (\<lambda>n. n \<notin> set (found_of d')) (glob_md d'))"
    by simp
  then show ?thesis
    unfolding others_of_def f
    by (intro properties_for_sort) simp_all
qed

section \<open>Titles of the fixed chapter list\<close>




lemma found_of_Nil: "found_of [] = []"
  by (simp add: found_of_def is_file_def)

lemma others_of_Nil: "others_of [] = []"
  by (simp add: others_of_def glob_md_def)

section \<open>The table-of-contents generator: the claims\<close>







text \<open>
  C6. The document and the warnings are determined by the contents of the directory:
  two enumerations of the same entries, in whatever order, give the same text.
\<close>

theorem C6_deterministic:
  assumes "mset d = mset d'"
  shows "generate_toc_content d = generate_toc_content d' \<and> toc_warnings d = toc_warnings d'"
proof -
  have f: "is_file d = is_file d'"
    using assms by (rule is_file_mset)
  have o: "others_of d = others_of d'"
    using assms by (rule others_of_mset)
  have "generate_toc d = generate_toc d'"
    unfolding generate_toc_eq found_of_def f o ..
  then show ?thesis
    by (simp add: generate_toc_content_def toc_lines_def toc_warnings_def)
qed

theorem C6_deterministic_witness:
  "mset [(''b.md'', RegularFile), (''00-Introduction.md'', RegularFile), (''a.md'', RegularFile)]
     = mset [(''a.md'', RegularFile), (''b.md'', RegularFile), (''00-Introduction.md'', RegularFile)]
   \<and> generate_toc_content
       [(''b.md'', RegularFile), (''00-Introduction.md'', RegularFile), (''a.md'', RegularFile)]
     = generate_toc_content
       [(''a.md'', RegularFile), (''b.md'', RegularFile), (''00-Introduction.md'', RegularFile)]"
proof -
  have m: "mset [(''b.md'', RegularFile), (''00-Introduction.md'', RegularFile),
                 (''a.md'', RegularFile)]
     = mset [(''a.md'', RegularFile), (''b.md'', RegularFile),
             (''00-Introduction.md'', RegularFile)]"
    by simp
  from C6_deterministic[OF m] m show ?thesis
    by blast
qed

text \<open>
  C7. For the empty directory the document is the header, the two lines of prose and the
  \<open>Chapters\<close> heading followed by nothing but blank lines: it has no entry and no
  \<open>Other Files\<close> heading. The generator returns this text; every chapter of the fixed
  list is reported by a warning.
\<close>

theorem C7_empty_directory:
  "generate_toc_content [] =
     ''# LLM Coding Guide - Master Rules (v1.0.7+)'' @ [CHR 0x0A, CHR 0x0A] @
     ''This document serves as the entry point and Table of Contents for the Master List of Rules (MLR) for LLM-Assisted Coding.'' @ [CHR 0x0A] @
     ''The rules are broken down into chapters, located in the `../rules/` directory.'' @ [CHR 0x0A, CHR 0x0A] @
     ''## Chapters'' @ [CHR 0x0A, CHR 0x0A]
   \<and> entries (toc_lines []) = []
   \<and> ''### Other Files'' \<notin> set (toc_lines [])
   \<and> toc_warnings [] = CHAPTER_FILES"
  by (simp add: generate_toc_content_def toc_lines_eq toc_warnings_def generate_toc_eq
      found_of_Nil others_of_Nil header_lines_def entries_def is_entry_def is_file_def)


section \<open>The working tree under the steps of a run\<close>

lemma map_of_fs_put: "map_of (fs_put p n fs) q = (if q = p then Some n else map_of fs q)"
  by (induction fs) auto

lemma listdir_fs_put: "p = [] \<or> butlast p \<noteq> d \<Longrightarrow> listdir (fs_put p n fs) d = listdir fs d"
  by (induction fs) (auto simp: listdir_def)

lemma keeps_refl: "keeps fs fs"
  by (simp add: keeps_def)

lemma keeps_trans: "keeps f g \<Longrightarrow> keeps g h \<Longrightarrow> keeps f h"
  by (simp add: keeps_def)

lemma keeps_fs_put:
  "p = [] \<or> butlast p \<noteq> [''rules''] \<Longrightarrow> p \<noteq> [''.venv''] \<Longrightarrow> keeps fs (fs_put p n fs)"
  by (simp add: keeps_def listdir_fs_put map_of_fs_put)

lemma keeps_listdir: "keeps a b \<Longrightarrow> listdir b [''rules''] = listdir a [''rules'']"
  by (simp add: keeps_def)

lemma keeps_is_dir: "keeps a b \<Longrightarrow> is_dir b [''.venv''] = is_dir a [''.venv'']"
  by (simp add: keeps_def is_dir_def)

lemma take_not_single:
  assumes "p \<noteq> []" and "hd p \<noteq> x"
  shows "take j p \<noteq> [x]"
proof (cases j)
  case 0
  then show ?thesis by simp
next
  case (Suc k)
  with assms show ?thesis by (cases p) auto
qed

lemma butlast_not_single:
  assumes "p \<noteq> []" and "hd p \<noteq> x"
  shows "butlast p \<noteq> [x]"
  using take_not_single[OF assms, of "length p - 1"] by (simp add: butlast_conv_take)

lemma keeps_make_dirs:
  assumes "p \<noteq> []" and "hd p \<noteq> ''rules''" and "hd p \<noteq> ''.venv''"
  shows "keeps fs (make_dirs p k fs)"
proof (induction k)
  case 0
  show ?case by (simp add: keeps_refl)
next
  case (Suc k)
  have a: "take (Suc k) p \<noteq> [''.venv'']"
    using assms(1,3) by (rule take_not_single)
  have "take (Suc k) p \<noteq> []"
    using assms(1) by (cases p) auto
  moreover have "hd (take (Suc k) p) = hd p"
    using assms(1) by (cases p) auto
  ultimately have b: "butlast (take (Suc k) p) \<noteq> [''rules'']"
    using assms(2) by (intro butlast_not_single) auto
  have "keeps (make_dirs p k fs) (fs_put (take (Suc k) p) DirNode (make_dirs p k fs))"
    using a b by (intro keeps_fs_put) auto
  with Suc show ?case
    by (auto simp: Let_def intro: keeps_trans)
qed

lemma keeps_write:
  assumes "p \<noteq> []" and "hd p \<noteq> ''rules''" and "hd p \<noteq> ''.venv''"
  shows "keeps fs (fs_put p n (make_dirs p k fs))"
proof -
  have "butlast p \<noteq> [''rules'']"
    using assms(1,2) by (rule butlast_not_single)
  moreover have "p \<noteq> [''.venv'']"
    using assms(3) by auto
  ultimately have "keeps (make_dirs p k fs) (fs_put p n (make_dirs p k fs))"
    by (intro keeps_fs_put) auto
  with keeps_make_dirs[OF assms] show ?thesis
    by (rule keeps_trans)
qed

section \<open>The steps of a run, one by one\<close>

lemma mkdir_ok:
  assumes "p \<noteq> []" and "hd p \<noteq> ''rules''" and "hd p \<noteq> ''.venv''"
  shows "stmt_ok (mkdir e p)"
  using keeps_make_dirs[OF assms]
  by (simp add: stmt_ok_def mkdir_def log_def keeps_refl)

lemma create_file_ok:
  assumes "(p, c) \<in> set templates"
  shows "stmt_ok (create_file e p c)"
proof -
  from assms have "p \<noteq> [] \<and> hd p \<noteq> ''rules'' \<and> hd p \<noteq> ''.venv''"
    by (auto simp: templates_def)
  then have "keeps fs (fs_put p n (make_dirs p k fs))" for fs n k
    by (intro keeps_write) auto
  moreover have "p \<in> fst ` set templates"
    using assms by force
  ultimately show ?thesis
    using assms by (simp add: stmt_ok_def create_file_def log_def keeps_refl)
qed

lemma run_all_ok:
  assumes "list_all stmt_ok ss" and "run_all ss st = (r, st')"
  shows "keeps (tree st) (tree st') \<and>
     (\<exists>good. list_all step_good good \<and>
        (r = None \<and> trace st' = trace st @ good
         \<or> r = Some OSError \<and> (\<exists>b. step_bad b \<and> trace st' = trace st @ good @ [b])))"
  using assms
proof (induction ss arbitrary: st)
  case Nil
  then show ?case by (auto simp: keeps_refl)
next
  case (Cons s ss)
  from Cons.prems(1) have ok: "stmt_ok s" and oks: "list_all stmt_ok ss"
    by simp_all
  obtain r1 st1 where s1: "s st = (r1, st1)"
    by force
  from ok s1 obtain a where k1: "keeps (tree st) (tree st1)"
    and t1: "trace st1 = trace st @ [a]"
    and c1: "case r1 of None \<Rightarrow> step_good a | Some x \<Rightarrow> x = OSError \<and> step_bad a"
    unfolding stmt_ok_def by (metis fst_conv snd_conv)
  show ?case
  proof (cases r1)
    case None
    with Cons.prems(2) s1 have "run_all ss st1 = (r, st')"
      by simp
    from Cons.IH[OF oks this] obtain good where k2: "keeps (tree st1) (tree st')"
      and g: "list_all step_good good"
      and d: "r = None \<and> trace st' = trace st1 @ good
         \<or> r = Some OSError \<and> (\<exists>b. step_bad b \<and> trace st' = trace st1 @ good @ [b])"
      by blast
    from c1 None have ga: "list_all step_good (a # good)"
      using g by simp
    from d t1 have "r = None \<and> trace st' = trace st @ (a # good)
         \<or> r = Some OSError \<and> (\<exists>b. step_bad b \<and> trace st' = trace st @ (a # good) @ [b])"
      by auto
    with ga keeps_trans[OF k1 k2] show ?thesis
      by blast
  next
    case (Some x)
    with Cons.prems(2) s1 have "r = Some x" "st' = st1"
      by simp_all
    moreover from c1 Some have "x = OSError" "step_bad a"
      by simp_all
    ultimately have "r = Some OSError \<and> (\<exists>b. step_bad b \<and> trace st' = trace st @ [] @ [b])"
      using t1 by auto
    moreover have "list_all step_good []"
      by simp
    ultimately show ?thesis
      using k1 \<open>st' = st1\<close> by blast
  qed
qed

lemma create_structure_spec:
  assumes "create_structure e st = (r, st')"
  shows "keeps (tree st) (tree st') \<and>
     (\<exists>good. list_all step_good good \<and>
        (r = None \<and> trace st' = trace st @ good
         \<or> r = Some OSError \<and> (\<exists>b. step_bad b \<and> trace st' = trace st @ good @ [b])))"
proof (rule run_all_ok)
  show "run_all
       [mkdir e [''docs''],
        mkdir e [''scripts''],
        mkdir e [''.vscode''],
        mkdir e [''.github'', ''workflows''],
        create_file e [''.gitignore''] GITIGNORE_CONTENT,
        create_file e [''.gitattributes''] GITATTRIBUTES_CONTENT,
        create_file e [''.vscode'', ''settings.json''] VSCODE_SETTINGS_CONTENT,
        create_file e [''.markdownlint.jsonc''] MARKDOWNLINT_CONFIG_CONTENT,
        create_file e [''README.md''] README_CONTENT_TEMPLATE,
        create_file e [''docs'', ''SETUP_GUIDE.md''] SETUP_GUIDE_CONTENT,
        create_file e [''.github'', ''workflows'', ''markdown-lint.yml'']
          GITHUB_WORKFLOW_CONTENT] st = (r, st')"
    using assms by (simp only: create_structure_def)
  show "list_all stmt_ok
       [mkdir e [''docs''],
        mkdir e [''scripts''],
        mkdir e [''.vscode''],
        mkdir e [''.github'', ''workflows''],
        create_file e [''.gitignore''] GITIGNORE_CONTENT,
        create_file e [''.gitattributes''] GITATTRIBUTES_CONTENT,
        create_file e [''.vscode'', ''settings.json''] VSCODE_SETTINGS_CONTENT,
        create_file e [''.markdownlint.jsonc''] MARKDOWNLINT_CONFIG_CONTENT,
        create_file e [''README.md''] README_CONTENT_TEMPLATE,
        create_file e [''docs'', ''SETUP_GUIDE.md''] SETUP_GUIDE_CONTENT,
        create_file e [''.github'', ''workflows'', ''markdown-lint.yml'']
          GITHUB_WORKFLOW_CONTENT]"
    by (simp add: mkdir_ok create_file_ok templates_def)
qed

lemma copy_script_spec:
  "keeps (tree st) (tree (copy_script e st)) \<and>
   (trace (copy_script e st) = trace st
    \<or> trace (copy_script e st) = trace st @ [CopyScript [''scripts'', script_name e]])"
  by (simp add: copy_script_def log_def keeps_refl keeps_fs_put)

lemma write_toc_spec:
  "keeps (tree st) (tree (write_toc e st)) \<and>
   (trace (write_toc e st) =
      trace st @ [CreateFile toc_path (Text (generate_toc_content (listdir (tree st) [''rules''])))]
    \<or> trace (write_toc e st) = trace st @ [CreateFileFailed toc_path])"
proof -
  have "keeps fs (fs_put [''docs'', ''LLM_CODING_GUIDE.md''] n
          (make_dirs [''docs'', ''LLM_CODING_GUIDE.md''] k fs))" for fs n k
    by (intro keeps_write) auto
  then show ?thesis
    by (simp add: write_toc_def create_file_def log_def keeps_refl toc_path_def
        del: make_dirs.simps)
qed

lemma setup_venv_spec:
  assumes "setup_venv e st = (r, st')"
  shows "listdir (tree st') [''rules''] = listdir (tree st) [''rules'']"
    and "is_dir (tree st) [''.venv''] \<and> st' = st \<and> r = None
         \<or> \<not> is_dir (tree st) [''.venv''] \<and> trace st' = trace st @ [RunCommand (venv_cmd e)]"
    and "r = None \<Longrightarrow> is_dir (tree st') [''.venv'']"
  using assms
  by (auto simp: setup_venv_def run_command_def log_def venv_cmd_def listdir_fs_put
      is_dir_def map_of_fs_put split: if_splits proc.splits)

lemma install_tools_spec:
  assumes "install_tools e b st = (r, st')"
  shows "tree st' = tree st"
    and "b \<and> trace st' = trace st @ [RunCommand npm_cmd] \<or> \<not> b \<and> st' = st \<and> r = None"
  using assms
  by (auto simp: install_tools_def run_command_def log_def npm_cmd_def
      split: if_splits proc.splits)

lemma ensure_develop_spec:
  assumes "ensure_develop e st = (r, st')"
  shows "tree st' = tree st"
    and "trace st' = trace st @ [RunCommand [''git'', ''branch'', ''--list'', ''develop'']]
         \<or> trace st' = trace st @ [RunCommand [''git'', ''branch'', ''--list'', ''develop''],
                                    RunCommand [''git'', ''branch'', ''develop'']]"
  using assms
  by (auto simp: ensure_develop_def run_command_def log_def
      split: if_splits proc.splits)

section \<open>A whole run\<close>

lemma good_no_failed: "list_all step_good good \<Longrightarrow> CreateFileFailed p \<notin> set good"
  by (induction good) auto

lemma good_no_run: "list_all step_good good \<Longrightarrow> RunCommand c \<notin> set good"
  by (induction good) auto

lemma good_create:
  "list_all step_good good \<Longrightarrow> CreateFile p c \<in> set good \<Longrightarrow> (p, c) \<in> set templates"
  by (induction good) auto

lemma bad_form:
  "step_bad b \<Longrightarrow> (\<exists>q. b = MkdirFailed q) \<or> (\<exists>q. b = CreateFileFailed q \<and> q \<noteq> toc_path)"
  by (cases b) (auto simp: templates_def toc_path_def)


lemma main_cases:
  obtains
    (early) "main e t0 = (Exited 1, \<lparr>tree = t0, trace = checks e\<rparr>)"
  | (abort) x st3 where
      "create_structure e \<lparr>tree = t0, trace = checks e\<rparr> = (Some x, st3)"
      "main e t0 = (Uncaught x, st3)"
  | (late) st3 r5 st5 r6 st6 r7 st7 where
      "create_structure e \<lparr>tree = t0, trace = checks e\<rparr> = (None, st3)"
      "setup_venv e (write_toc e (copy_script e st3)) = (r5, st5)"
      "install_tools e (prereq_ok e [''npm'', ''--version'']) st5 = (r6, st6)"
      "ensure_develop e st6 = (r7, st7)"
      "main e t0 =
         (case r5 of Some x \<Rightarrow> (Uncaught x, st5)
          | None \<Rightarrow> (case r6 of Some x \<Rightarrow> (Uncaught x, st6)
             | None \<Rightarrow> (case r7 of Some x \<Rightarrow> (Uncaught x, st7) | None \<Rightarrow> (Completed, st7))))"
proof -
  let ?st0 = "\<lparr>tree = t0, trace = checks e\<rparr>"
  let ?P = "prereq_ok e [sys_executable e, ''--version''] \<and> prereq_ok e [''git'', ''--version'']
            \<and> is_dir t0 [''.git''] \<and> is_dir t0 [''rules'']"
  have m: "main e t0 =
     (if \<not> ?P then (Exited 1, ?st0)
      else (case create_structure e ?st0 of
                 (Some x, st) \<Rightarrow> (Uncaught x, st)
               | (None, st) \<Rightarrow>
                   (case setup_venv e (write_toc e (copy_script e st)) of
                      (Some x, st) \<Rightarrow> (Uncaught x, st)
                    | (None, st) \<Rightarrow>
                        (case install_tools e (prereq_ok e [''npm'', ''--version'']) st of
                           (Some x, st) \<Rightarrow> (Uncaught x, st)
                         | (None, st) \<Rightarrow>
                             (case ensure_develop e st of
                                (Some x, st) \<Rightarrow> (Uncaught x, st)
                              | (None, st) \<Rightarrow> (Completed, st))))))"
    by (simp add: main_def check_prereq_def log_def checks_def Let_def)
  show thesis
  proof (cases ?P)
    case False
    with m have "main e t0 = (Exited 1, ?st0)"
      by simp
    then show thesis by (rule early)
  next
    case True
    obtain r3 st3 where c3: "create_structure e ?st0 = (r3, st3)"
      by force
    show thesis
    proof (cases r3)
      case (Some x)
      with m True c3 have "main e t0 = (Uncaught x, st3)"
        by simp
      with c3 Some show thesis by (auto intro: abort)
    next
      case None
      obtain r5 st5 where c5: "setup_venv e (write_toc e (copy_script e st3)) = (r5, st5)"
        by force
      obtain r6 st6 where c6: "install_tools e (prereq_ok e [''npm'', ''--version'']) st5 = (r6, st6)"
        by force
      obtain r7 st7 where c7: "ensure_develop e st6 = (r7, st7)"
        by force
      have "main e t0 =
         (case r5 of Some x \<Rightarrow> (Uncaught x, st5)
          | None \<Rightarrow> (case r6 of Some x \<Rightarrow> (Uncaught x, st6)
             | None \<Rightarrow> (case r7 of Some x \<Rightarrow> (Uncaught x, st7) | None \<Rightarrow> (Completed, st7))))"
        using m True c3 None c5 c6 c7 by (simp split: option.splits)
      with c3 None c5 c6 c7 show thesis by (auto intro: late)
    qed
  qed
qed

lemma main_summary:
  "(\<forall>p c. CreateFile p c \<in> set (trace (snd (main e t0)))
        \<longrightarrow> (p, c) \<in> set (outputs (listdir t0 [''rules''])))
   \<and> listdir (tree (snd (main e t0))) [''rules''] = listdir t0 [''rules'']
   \<and> (\<forall>p. CreateFileFailed p \<in> set (trace (snd (main e t0))) \<and> p \<noteq> toc_path
        \<longrightarrow> fst (main e t0) = Uncaught OSError
            \<and> last (trace (snd (main e t0))) = CreateFileFailed p)
   \<and> (CreateFileFailed toc_path \<in> set (trace (snd (main e t0)))
        \<longrightarrow> (\<exists>cmd. last (trace (snd (main e t0))) = RunCommand cmd))
   \<and> (fst (main e t0) = Completed \<longrightarrow> is_dir (tree (snd (main e t0))) [''.venv''])
   \<and> (is_dir t0 [''.venv''] \<longrightarrow> RunCommand (venv_cmd e) \<notin> set (trace (snd (main e t0))))
   \<and> (fst (main e t0) = Completed \<and> prereq_ok e [''npm'', ''--version'']
        \<longrightarrow> RunCommand npm_cmd \<in> set (trace (snd (main e t0))))"
proof (cases rule: main_cases[of e t0])
  case early
  then show ?thesis
    by (simp add: checks_def)
next
  case (abort x st3)
  from create_structure_spec[OF abort(1)] obtain good b where
    k: "keeps t0 (tree st3)" and g: "list_all step_good good" and x: "x = OSError"
    and b: "step_bad b" and t: "trace st3 = checks e @ good @ [b]"
    by auto
  note gf = good_no_failed[OF g] good_no_run[OF g] good_create[OF g]
  from bad_form[OF b] show ?thesis
  proof
    assume "\<exists>q. b = MkdirFailed q"
    then show ?thesis
      using abort(2) k x t gf
      by (auto simp: checks_def outputs_def keeps_listdir)
  next
    assume "\<exists>q. b = CreateFileFailed q \<and> q \<noteq> toc_path"
    then show ?thesis
      using abort(2) k x t gf
      by (auto simp: checks_def outputs_def keeps_listdir)
  qed
next
  case (late st3 r5 st5 r6 st6 r7 st7)
  from create_structure_spec[OF late(1)] obtain good where
    k3: "keeps t0 (tree st3)" and g: "list_all step_good good"
    and t3: "trace st3 = checks e @ good"
    by auto
  note gf = good_no_failed[OF g] good_no_run[OF g] good_create[OF g]
  define stc where "stc = copy_script e st3"
  define st4 where "st4 = write_toc e stc"
  have kc: "keeps (tree st3) (tree stc)"
    and tc: "trace stc = trace st3 \<or> trace stc = trace st3 @ [CopyScript [''scripts'', script_name e]]"
    using copy_script_spec[of st3 e] by (simp_all add: stc_def)
  have k4: "keeps (tree stc) (tree st4)"
    and t4: "trace st4 = trace stc @ [CreateFile toc_path (Text (generate_toc_content (listdir (tree stc) [''rules''])))]
       \<or> trace st4 = trace stc @ [CreateFileFailed toc_path]"
    using write_toc_spec[of stc e] by (simp_all add: st4_def)
  have k04: "keeps t0 (tree st4)"
    using k3 kc k4 by (blast intro: keeps_trans)
  have l0c: "listdir (tree stc) [''rules''] = listdir t0 [''rules'']"
    using keeps_trans[OF k3 kc] by (rule keeps_listdir)
  have c5: "setup_venv e st4 = (r5, st5)"
    using late(2) by (simp add: st4_def stc_def)
  note s5 = setup_venv_spec[OF c5]
  note s6 = install_tools_spec[OF late(3)]
  note s7 = ensure_develop_spec[OF late(4)]
  have l4: "listdir (tree st4) [''rules''] = listdir t0 [''rules'']"
    using k04 by (rule keeps_listdir)
  have v4: "is_dir (tree st4) [''.venv''] = is_dir t0 [''.venv'']"
    using k04 by (rule keeps_is_dir)
  obtain mid where t4': "trace st4 = checks e @ good @ mid"
    and mid: "set mid \<subseteq> {CopyScript [''scripts'', script_name e],
        CreateFile toc_path (Text (generate_toc_content (listdir t0 [''rules'']))),
        CreateFileFailed toc_path}"
    using t3 tc t4 l0c by auto
  obtain n5 where t5: "trace st5 = trace st4 @ n5"
    and n5: "n5 = [] \<and> r5 = None \<and> st5 = st4
             \<or> n5 = [RunCommand (venv_cmd e)] \<and> \<not> is_dir t0 [''.venv'']"
    using s5(2) v4 by auto
  obtain n6 where t6: "trace st6 = trace st5 @ n6"
    and n6: "n6 = [RunCommand npm_cmd] \<and> prereq_ok e [''npm'', ''--version'']
             \<or> n6 = [] \<and> \<not> prereq_ok e [''npm'', ''--version''] \<and> r6 = None"
    using s6(2) by auto
  obtain n7 where t7: "trace st7 = trace st6 @ n7"
    and n7: "n7 = [RunCommand [''git'', ''branch'', ''--list'', ''develop'']]
             \<or> n7 = [RunCommand [''git'', ''branch'', ''--list'', ''develop''],
                      RunCommand [''git'', ''branch'', ''develop'']]"
    using s7(2) by auto
  have l5: "listdir (tree st5) [''rules''] = listdir t0 [''rules'']"
    using s5(1) l4 by simp
  have vdiff: "venv_cmd e \<noteq> npm_cmd" "venv_cmd e \<noteq> [''git'', ''branch'', ''--list'', ''develop'']"
    "venv_cmd e \<noteq> [''git'', ''branch'', ''develop'']"
    by (simp_all add: venv_cmd_def npm_cmd_def)
  show ?thesis
  proof (cases r5)
    case (Some x5)
    with late(5) have m: "main e t0 = (Uncaught x5, st5)"
      by simp
    from Some n5 have n5': "n5 = [RunCommand (venv_cmd e)]" "\<not> is_dir t0 [''.venv'']"
      by auto
    show ?thesis
      using m t5 t4' mid n5' gf
      by (auto simp: checks_def outputs_def l5)
  next
    case None
    note r5 = None
    from s5(3)[OF None] have v5: "is_dir (tree st5) [''.venv'']" .
    show ?thesis
    proof (cases r6)
      case (Some x6)
      with late(5) r5 have m: "main e t0 = (Uncaught x6, st6)"
        by simp
      from Some n6 have n6': "n6 = [RunCommand npm_cmd]"
        by auto
      show ?thesis
        using m t6 t5 t4' mid n5 n6' gf vdiff s6(1) l5
        by (auto simp: checks_def outputs_def)
    next
      case None
      note r6 = None
      have fin: "snd (main e t0) = st7" "fst (main e t0) = Completed \<or> (\<exists>x. fst (main e t0) = Uncaught x \<and> r7 = Some x)"
        using late(5) r5 r6 by (auto split: option.splits)
      have tfin: "trace st7 = checks e @ good @ mid @ n5 @ n6 @ n7"
        using t7 t6 t5 t4' by simp
      have c1: "\<forall>p c. CreateFile p c \<in> set (trace st7) \<longrightarrow> (p, c) \<in> set (outputs (listdir t0 [''rules'']))"
        using tfin mid n5 n6 n7 gf by (auto simp: checks_def outputs_def)
      have c2: "listdir (tree st7) [''rules''] = listdir t0 [''rules'']"
        using s7(1) s6(1) l5 by simp
      have c3: "\<forall>p. CreateFileFailed p \<in> set (trace st7) \<longrightarrow> p = toc_path"
        using tfin mid n5 n6 n7 gf by (auto simp: checks_def)
      have c4: "\<exists>cmd. last (trace st7) = RunCommand cmd"
        using tfin n7 by auto
      have c5: "is_dir (tree st7) [''.venv'']"
        using s7(1) s6(1) v5 by simp
      have c6: "is_dir t0 [''.venv''] \<longrightarrow> RunCommand (venv_cmd e) \<notin> set (trace st7)"
        using tfin mid n5 n6 n7 gf vdiff by (auto simp: checks_def)
      have c7: "prereq_ok e [''npm'', ''--version''] \<longrightarrow> RunCommand npm_cmd \<in> set (trace st7)"
        using tfin n6 by auto
      show ?thesis
        unfolding fin(1) using c1 c2 c3 c4 c5 c6 c7 by blast
    qed
  qed
qed

section \<open>The orchestration sequence: the claims\<close>

text \<open>
  C4, as the code has it. When the write of one of the seven template files fails, the
  \<open>OSError\<close> leaves \<open>main\<close> and the failed write is the last step of the run. When the
  write of the generated table of contents fails, the exception is caught: the run goes
  on, and its last step is a later command.
\<close>

theorem C4_failed_write:
  "(CreateFileFailed p \<in> set (trace (snd (main e t0))) \<and> p \<noteq> [''docs'', ''LLM_CODING_GUIDE.md'']
      \<longrightarrow> fst (main e t0) = Uncaught OSError
          \<and> last (trace (snd (main e t0))) = CreateFileFailed p)
   \<and> (CreateFileFailed [''docs'', ''LLM_CODING_GUIDE.md''] \<in> set (trace (snd (main e t0)))
      \<longrightarrow> (\<exists>cmd. last (trace (snd (main e t0))) = RunCommand cmd))"
  using main_summary[of e t0] unfolding toc_path_def by blast

theorem C4_failed_write_witness:
  "CreateFileFailed [''README.md''] \<in> set (trace (snd (main env_readme_refused repo)))
   \<and> [''README.md''] \<noteq> [''docs'', ''LLM_CODING_GUIDE.md'']
   \<and> fst (main env_readme_refused repo) = Uncaught OSError
   \<and> last (trace (snd (main env_readme_refused repo))) = CreateFileFailed [''README.md'']"
proof -
  have h: "CreateFileFailed [''README.md''] \<in> set (trace (snd (main env_readme_refused repo)))"
    by code_simp
  have n: "[''README.md''] \<noteq> [''docs'', ''LLM_CODING_GUIDE.md'']"
    by simp
  from C4_failed_write[of "[''README.md'']" env_readme_refused repo] h n show ?thesis
    by blast
qed

text \<open>
  C4, as the claim states it, fails for the generated table of contents: in a run where
  only that write is refused, the run completes, and four commands run after the failed
  write.
\<close>

theorem C4_counterexample:
  "fst (main env_toc_refused repo) = Completed
   \<and> trace (snd (main env_toc_refused repo)) =
       [CheckPrereq [''python3'', ''--version''], CheckPrereq [''git'', ''--version''],
        CheckPrereq [''npm'', ''--version''],
        Mkdir [''docs''], Mkdir [''scripts''], Mkdir [''.vscode''],
        Mkdir [''.github'', ''workflows''],
        CreateFile [''.gitignore''] GITIGNORE_CONTENT,
        CreateFile [''.gitattributes''] GITATTRIBUTES_CONTENT,
        CreateFile [''.vscode'', ''settings.json''] VSCODE_SETTINGS_CONTENT,
        CreateFile [''.markdownlint.jsonc''] MARKDOWNLINT_CONFIG_CONTENT,
        CreateFile [''README.md''] README_CONTENT_TEMPLATE,
        CreateFile [''docs'', ''SETUP_GUIDE.md''] SETUP_GUIDE_CONTENT,
        CreateFile [''.github'', ''workflows'', ''markdown-lint.yml''] GITHUB_WORKFLOW_CONTENT,
        CopyScript [''scripts'', ''setup_project.py''],
        CreateFileFailed [''docs'', ''LLM_CODING_GUIDE.md''],
        RunCommand [''python3'', ''-m'', ''venv'', ''.venv''],
        RunCommand [''npm'', ''install'', ''-g'', ''markdownlint-cli''],
        RunCommand [''git'', ''branch'', ''--list'', ''develop''],
        RunCommand [''git'', ''branch'', ''develop'']]"
  by (intro conjI; code_simp)

text \<open>
  C5 at an input where the code leaves the claim: every tool is found, the layout is
  right, \<open>.venv\<close> does not exist and \<open>python -m venv .venv\<close> returns 1. The optional
  step fails, \<open>run_command\<close> raises the error again, and the run ends there with exit
  status 1 instead of going on to exit status 0. Where the linter installation fails
  instead, the run completes with exit status 0.
\<close>

theorem C5_venv_failure_aborts:
  "fst (main env_venv_fails repo) = Uncaught CalledProcessError
   \<and> exit_code (fst (main env_venv_fails repo)) = 1
   \<and> last (trace (snd (main env_venv_fails repo))) = RunCommand [''python3'', ''-m'', ''venv'', ''.venv'']
   \<and> fst (main env_npm_fails repo) = Completed
   \<and> exit_code (fst (main env_npm_fails repo)) = 0"
  by (intro conjI; code_simp)

text \<open>
  C8. In a working tree without the \<open>.git\<close> directory, or without the \<open>rules\<close>
  directory, the run exits with status 1 after the three prerequisite checks: no
  directory is made, no file is written, and the tree is as it was.
\<close>

theorem C8_layout_missing:
  assumes "\<not> is_dir t0 [''.git''] \<or> \<not> is_dir t0 [''rules'']"
  shows "fst (main e t0) = Exited 1
     \<and> exit_code (fst (main e t0)) = 1
     \<and> trace (snd (main e t0)) =
         [CheckPrereq [sys_executable e, ''--version''], CheckPrereq [''git'', ''--version''],
          CheckPrereq [''npm'', ''--version'']]
     \<and> tree (snd (main e t0)) = t0"
  using assms by (auto simp: main_def check_prereq_def log_def Let_def)

theorem C8_layout_missing_witness:
  "(\<not> is_dir [([''rules''], DirNode)] [''.git''])
   \<and> fst (main env_ok [([''rules''], DirNode)]) = Exited 1
   \<and> trace (snd (main env_ok [([''rules''], DirNode)])) =
         [CheckPrereq [''python3'', ''--version''], CheckPrereq [''git'', ''--version''],
          CheckPrereq [''npm'', ''--version'']]
   \<and> tree (snd (main env_ok [([''rules''], DirNode)])) = [([''rules''], DirNode)]"
proof -
  have h: "\<not> is_dir [([''rules''], DirNode)] [''.git'']"
    by (simp add: is_dir_def)
  then have "\<not> is_dir [([''rules''], DirNode)] [''.git'']
      \<or> \<not> is_dir [([''rules''], DirNode)] [''rules'']"
    by simp
  from C8_layout_missing[OF this, of env_ok] h show ?thesis
    by (simp add: env_ok_def)
qed




end
